theory Spec2Isabelle
  imports Complex_Main "HOL-Library.AList" "HOL-Library.Char_ord" "HOL-Library.List_Lexorder"
begin

section \<open>The Telegram backend of kutana\<close>

text \<open>
  A shallow embedding of \<^verbatim>\<open>kutana/backends/telegram.py\<close>. The adapter object is a record
  that every method takes and returns; the outside world (the HTTP provider and the sink
  that receives updates) is an environment of functions of the history; everything the
  adapter does to the outside world is appended to a trace of effects; every exception of
  the source is a value of type \<open>exn\<close>.
\<close>

subsection \<open>Python values\<close>

text \<open>
  Decoded JSON and the values a caller passes in. A dict is an association list in
  insertion order (keys are strings, as in JSON; a well-formed dict has distinct keys and
  \<open>map_of\<close> reads it). JSON numbers are integers: the Bot API fields that the code
  computes with (\<^verbatim>\<open>update_id\<close>, \<^verbatim>\<open>offset\<close>, \<^verbatim>\<open>length\<close>, \<^verbatim>\<open>width\<close>) all are. A Python \<^verbatim>\<open>str\<close>
  is a \<open>string\<close>, one \<open>char\<close> per code point (code points below 256).
\<close>

datatype pyval =
    VNone
  | VBool bool
  | VInt int
  | VStr string
  | VBytes string
  | VList "pyval list"
  | VDict "(string \<times> pyval) list"

type_synonym pydict = "(string \<times> pyval) list"

text \<open>
  The exceptions of the source. \<open>NotAContextManager\<close> is what \<^verbatim>\<open>async with None\<close> raises
  (\<^verbatim>\<open>AttributeError\<close> up to Python 3.10, \<^verbatim>\<open>TypeError\<close> from 3.11). The two \<^verbatim>\<open>ValueError\<close>s of
  \<^verbatim>\<open>execute_send\<close> are told apart by their message: \<open>CantUploadAttachment t\<close> is
  \<^verbatim>\<open>ValueError(f"Can't upload attachment '{t}'")\<close>, \<open>UnexpectedAttachment\<close> is
  \<^verbatim>\<open>ValueError(f'Unexpected attachment: "{attachment}"')\<close>. \<open>Unmodelled\<close> marks an input on which
  the embedding does not follow the source (ill-typed JSON whose outcome depends on the
  shape of the value or on the Python version); no theorem says anything about it.
\<close>

datatype exn =
    JSONDecodeError
  | ClientError
  | CancelledError
  | RequestException string pydict pyval
  | KeyError string
  | IndexError
  | TypeError
  | AttributeError
  | ValueError string
  | ZeroDivisionError
  | NotAContextManager
  | CantUploadAttachment string
  | UnexpectedAttachment
  | OtherException string
  | Unmodelled

definition ebind :: "exn + 'a \<Rightarrow> ('a \<Rightarrow> exn + 'b) \<Rightarrow> exn + 'b" where
  "ebind m f = (case m of Inl e \<Rightarrow> Inl e | Inr x \<Rightarrow> f x)"

fun emap :: "('a \<Rightarrow> exn + 'b) \<Rightarrow> 'a list \<Rightarrow> exn + 'b list" where
  "emap f [] = Inr []"
| "emap f (x # xs) = ebind (f x) (\<lambda>y. ebind (emap f xs) (\<lambda>ys. Inr (y # ys)))"

text \<open>Truthiness, as \<^verbatim>\<open>if v:\<close> and \<^verbatim>\<open>not v\<close> test it.\<close>

fun truthy :: "pyval \<Rightarrow> bool" where
  "truthy VNone = False"
| "truthy (VBool b) = b"
| "truthy (VInt n) = (n \<noteq> 0)"
| "truthy (VStr s) = (s \<noteq> [])"
| "truthy (VBytes s) = (s \<noteq> [])"
| "truthy (VList xs) = (xs \<noteq> [])"
| "truthy (VDict kv) = (kv \<noteq> [])"

text \<open>\<^verbatim>\<open>s in t\<close> on two strings: \<open>s\<close> occurs in \<open>t\<close>.\<close>

fun contains :: "string \<Rightarrow> string \<Rightarrow> bool" where
  "contains s [] = (s = [])"
| "contains s (c # t) = (take (length s) (c # t) = s \<or> contains s t)"

text \<open>\<^verbatim>\<open>k in v\<close> for a string \<open>k\<close>.\<close>

fun py_in :: "string \<Rightarrow> pyval \<Rightarrow> exn + bool" where
  "py_in k (VDict kv) = Inr (map_of kv k \<noteq> None)"
| "py_in k (VList xs) = Inr (VStr k \<in> set xs)"
| "py_in k (VStr s) = Inr (contains k s)"
| "py_in k _ = Inl TypeError"

text \<open>\<^verbatim>\<open>v[k]\<close> for a string \<open>k\<close>.\<close>

fun py_getitem :: "pyval \<Rightarrow> string \<Rightarrow> exn + pyval" where
  "py_getitem (VDict kv) k = (case map_of kv k of None \<Rightarrow> Inl (KeyError k) | Some x \<Rightarrow> Inr x)"
| "py_getitem _ k = Inl TypeError"

text \<open>\<^verbatim>\<open>v.get(k, d)\<close>.\<close>

fun py_get :: "pyval \<Rightarrow> string \<Rightarrow> pyval \<Rightarrow> exn + pyval" where
  "py_get (VDict kv) k d = (case map_of kv k of None \<Rightarrow> Inr d | Some x \<Rightarrow> Inr x)"
| "py_get _ k d = Inl AttributeError"

text \<open>Iteration: what \<^verbatim>\<open>for x in v\<close> and \<^verbatim>\<open>sorted(v)\<close> run over.\<close>

fun py_iter :: "pyval \<Rightarrow> exn + pyval list" where
  "py_iter (VList xs) = Inr xs"
| "py_iter (VDict kv) = Inr (map (\<lambda>p. VStr (fst p)) kv)"
| "py_iter (VStr s) = Inr (map (\<lambda>c. VStr [c]) s)"
| "py_iter (VBytes s) = Inr (map (\<lambda>c. VInt (of_char c)) s)"
| "py_iter _ = Inl TypeError"

text \<open>\<^verbatim>\<open>a + b\<close> on strings; anything else added to a string raises.\<close>

fun py_concat :: "pyval \<Rightarrow> pyval \<Rightarrow> exn + pyval" where
  "py_concat (VStr a) (VStr b) = Inr (VStr (a @ b))"
| "py_concat _ _ = Inl TypeError"

text \<open>The integer a value counts as in arithmetic and comparisons (\<^verbatim>\<open>bool\<close> is an \<^verbatim>\<open>int\<close>).\<close>

fun py_num :: "pyval \<Rightarrow> int option" where
  "py_num (VInt n) = Some n"
| "py_num (VBool b) = Some (if b then 1 else 0)"
| "py_num _ = None"

definition py_add :: "pyval \<Rightarrow> pyval \<Rightarrow> exn + int" where
  "py_add a b = (case (py_num a, py_num b) of (Some m, Some n) \<Rightarrow> Inr (m + n) | _ \<Rightarrow> Inl TypeError)"

text \<open>Decimal digits, for \<^verbatim>\<open>str(n)\<close>.\<close>

fun digits :: "nat \<Rightarrow> string" where
  "digits n = (if n < 10 then [char_of (48 + n)] else digits (n div 10) @ [char_of (48 + n mod 10)])"

declare digits.simps [simp del]

definition show_int :: "int \<Rightarrow> string" where
  "show_int i = (if i < 0 then CHR ''-'' # digits (nat (- i)) else digits (nat i))"

text \<open>
  \<^verbatim>\<open>str(v)\<close> and \<^verbatim>\<open>f"{v}"\<close>. The \<^verbatim>\<open>repr\<close> of bytes, lists and dicts is not modelled.
\<close>

fun py_str :: "pyval \<Rightarrow> exn + string" where
  "py_str VNone = Inr ''None''"
| "py_str (VBool b) = Inr (if b then ''True'' else ''False'')"
| "py_str (VInt n) = Inr (show_int n)"
| "py_str (VStr s) = Inr s"
| "py_str _ = Inl Unmodelled"

text \<open>
  \<^verbatim>\<open>s[i:j]\<close> on a string, with Python's treatment of negative and out-of-range bounds;
  \<open>None\<close> for \<open>j\<close> is the open end \<^verbatim>\<open>s[i:]\<close>.
\<close>

definition clamp_index :: "nat \<Rightarrow> int \<Rightarrow> nat" where
  "clamp_index n i = (if i < 0 then nat (max (i + int n) 0) else min (nat i) n)"

definition py_slice :: "string \<Rightarrow> int \<Rightarrow> int option \<Rightarrow> string" where
  "py_slice s i j =
     (let n = length s;
          lo = clamp_index n i;
          hi = (case j of None \<Rightarrow> n | Some j' \<Rightarrow> clamp_index n j')
      in take (hi - lo) (drop lo s))"

definition endswith :: "string \<Rightarrow> string \<Rightarrow> bool" where
  "endswith s suffix = (length suffix \<le> length s \<and> drop (length s - length suffix) s = suffix)"

text \<open>
  \<^verbatim>\<open>sorted(items, key=lambda p: p[k])\<close>. The keys are computed first, in order, and a
  missing key raises there. Python's sort is stable and compares keys with \<^verbatim>\<open><\<close>; one
  item or none is never compared. Integers (and booleans) compare with each other,
  strings with strings by code point; \<^verbatim>\<open>None\<close>, dicts and values of different kinds do not
  compare (\<^verbatim>\<open>TypeError\<close>). Lists and bytes as keys are not modelled.
\<close>

fun is_VStr :: "pyval \<Rightarrow> bool" where
  "is_VStr (VStr s) = True"
| "is_VStr _ = False"

fun the_VStr :: "pyval \<Rightarrow> string" where
  "the_VStr (VStr s) = s"
| "the_VStr _ = []"

fun is_seq_key :: "pyval \<Rightarrow> bool" where
  "is_seq_key (VList xs) = True"
| "is_seq_key (VBytes s) = True"
| "is_seq_key _ = False"

definition py_sorted_by :: "string \<Rightarrow> pyval list \<Rightarrow> exn + pyval list" where
  "py_sorted_by k items =
     ebind (emap (\<lambda>p. py_getitem p k) items) (\<lambda>keys.
       if length items \<le> 1 then Inr items
       else if list_all (\<lambda>key. py_num key \<noteq> None) keys
         then Inr (map snd (sort_key (\<lambda>p. the (py_num (fst p))) (zip keys items)))
       else if list_all is_VStr keys
         then Inr (map snd (sort_key (\<lambda>p. the_VStr (fst p)) (zip keys items)))
       else if list_ex is_seq_key keys then Inl Unmodelled
       else Inl TypeError)"

subsection \<open>The canonical event model\<close>

text \<open>
  Modelled from the spec: the classes \<^verbatim>\<open>Attachment\<close>, \<^verbatim>\<open>Update\<close>, \<^verbatim>\<open>Message\<close> and the enumerations
  \<^verbatim>\<open>UpdateType\<close>, \<^verbatim>\<open>ReceiverType\<close> of \<^verbatim>\<open>kutana/update.py\<close> are not among the sources. Section 3
  of the specification gives their attributes; the fields below are those that
  \<^verbatim>\<open>telegram.py\<close> passes to the constructors or reads. The deferred content fetcher
  (\<^verbatim>\<open>_make_getter(id)\<close>) is represented by the id it is bound to.
\<close>

record attachment =
  att_id :: pyval
  att_type :: string
  title :: pyval
  file_name :: pyval
  getter :: "pyval option"
  att_raw :: pyval
  uploaded :: bool
  att_file :: pyval

text \<open>
  Modelled from the spec: \<^verbatim>\<open>Attachment._existing_full\<close> builds an \<^emph>\<open>existing\<close> attachment, one
  already known to the provider: it is uploaded and carries no local content.
\<close>

definition existing_full ::
  "pyval \<Rightarrow> string \<Rightarrow> pyval \<Rightarrow> pyval \<Rightarrow> pyval option \<Rightarrow> pyval \<Rightarrow> attachment" where
  "existing_full i t ttl fname g r =
     \<lparr>att_id = i, att_type = t, title = ttl, file_name = fname, getter = g, att_raw = r,
      uploaded = True, att_file = VNone\<rparr>"

datatype update_type = MSG | UPD

datatype receiver_type = SOLO | MULTI

datatype update =
    Update pyval update_type pydict
  | Message (msg_raw: pyval) (msg_type: update_type) (msg_text: pyval)
      (msg_attachments: "attachment list") (msg_sender_id: pyval) (msg_receiver_id: pyval)
      (msg_receiver_type: receiver_type) (msg_date: pyval) (msg_meta: pydict)

subsection \<open>The adapter object\<close>

datatype session = Supplied | Created

datatype lock = Lock

text \<open>
  The fields of \<^verbatim>\<open>Telegram\<close>. \<^verbatim>\<open>api_messages_pause\<close> is the float \<^verbatim>\<open>1 / messages_per_second\<close>,
  here the exact rational. The URL templates and the proxy play no part in what follows
  and are left out.
\<close>

record telegram =
  offset :: int
  session :: "session option"
  is_session_local :: bool
  username :: pyval
  api_token :: string
  api_messages_pause :: rat
  api_messages_lock :: "lock option"

definition init :: "string \<Rightarrow> int \<Rightarrow> session option \<Rightarrow> exn + telegram" where
  "init token messages_per_second sess =
     (if token = [] then Inl (ValueError ''No `token` specified'')
      else if messages_per_second = 0 then Inl ZeroDivisionError
      else Inr \<lparr>offset = 0, session = sess, is_session_local = (sess = None),
                username = VNone, api_token = token,
                api_messages_pause = 1 / of_int messages_per_second,
                api_messages_lock = None\<rparr>)"

subsection \<open>Normalising a raw update\<close>

definition SUPPORTED_ATTACHMENT_TYPES :: "string list" where
  "SUPPORTED_ATTACHMENT_TYPES = [''audio'', ''document'', ''photo'', ''sticker'', ''video'', ''voice'']"

definition ATTACHMENT_TYPE_ALIASES :: "(string \<times> string) list" where
  "ATTACHMENT_TYPE_ALIASES = [(''doc'', ''document''), (''image'', ''photo'')]"

text \<open>\<^verbatim>\<open>xs[-1]\<close>.\<close>

definition py_last :: "'a list \<Rightarrow> exn + 'a" where
  "py_last xs = (if xs = [] then Inl IndexError else Inr (last xs))"

definition make_attachment :: "pyval \<Rightarrow> string \<Rightarrow> exn + attachment" where
  "make_attachment d t =
     ebind (py_in ''file_id'' d) (\<lambda>has_id.
     ebind (if has_id then py_getitem d ''file_id'' else Inr VNone) (\<lambda>i.
       if t = ''photo'' then
         ebind (py_iter d) (\<lambda>sizes.
         ebind (py_sorted_by ''width'' sizes) (\<lambda>sorted_sizes.
         ebind (py_last sorted_sizes) (\<lambda>photo.
         ebind (py_getitem photo ''file_id'') (\<lambda>pid.
           Inr (existing_full pid ''image'' (VStr []) pid (Some pid) d)))))
       else if t = ''audio'' then
         ebind (py_get d ''performer'' (VStr [])) (\<lambda>performer.
         ebind (py_concat performer (VStr '' - '')) (\<lambda>left.
         ebind (py_get d ''title'' (VStr [])) (\<lambda>track.
         ebind (py_concat left track) (\<lambda>ttl.
           Inr (existing_full i ''audio'' ttl i (Some i) d)))))
       else if t = ''document'' then
         ebind (py_get d ''file_name'' (VStr [])) (\<lambda>fname.
           Inr (existing_full i ''doc'' (VStr []) fname (Some i) d))
       else if t = ''sticker'' then Inr (existing_full i ''sticker'' (VStr []) i (Some i) d)
       else if t = ''voice'' then Inr (existing_full i ''voice'' (VStr []) i (Some i) d)
       else if t = ''video'' then Inr (existing_full i ''video'' (VStr []) i (Some i) d)
       else Inr (existing_full VNone t VNone VNone None d)))"

text \<open>
  \<^verbatim>\<open>_extract_text\<close>. The loop over the sorted entities carries \<^verbatim>\<open>final_text\<close>, \<^verbatim>\<open>last_index\<close>
  and \<^verbatim>\<open>meta\<close>. The suffix looked for is the
  character \<open>@\<close> followed by \<^verbatim>\<open>str(self.username)\<close> (an f-string in the source). Slicing a text that is
  not a string is not modelled.
\<close>

fun str_slice :: "pyval \<Rightarrow> int \<Rightarrow> int option \<Rightarrow> exn + string" where
  "str_slice (VStr s) i j = Inr (py_slice s i j)"
| "str_slice _ i j = Inl Unmodelled"

fun scrub :: "pyval \<Rightarrow> pyval \<Rightarrow> pyval list \<Rightarrow> string \<times> int \<times> pydict \<Rightarrow> exn + string \<times> int \<times> pydict" where
  "scrub uname text [] acc = Inr acc"
| "scrub uname text (entity # entities) (final_text, last_index, meta) =
     ebind (py_getitem entity ''type'') (\<lambda>ty.
       if ty = VStr ''bot_command'' then
         ebind (py_getitem entity ''offset'') (\<lambda>off.
         ebind (py_getitem entity ''length'') (\<lambda>len.
         ebind (py_add off len) (\<lambda>new_last_index.
         ebind (str_slice text last_index (Some new_last_index)) (\<lambda>command.
         ebind (py_str uname) (\<lambda>name.
           if endswith command (CHR ''@'' # name)
           then scrub uname text entities
                  (final_text @ py_slice command 0 (Some (- int (length (CHR ''@'' # name)))),
                   new_last_index, AList.update ''bot_mentioned'' (VBool True) meta)
           else scrub uname text entities (final_text @ command, new_last_index, meta))))))
       else scrub uname text entities (final_text, last_index, meta))"

definition extract_text :: "telegram \<Rightarrow> pyval \<Rightarrow> exn + pyval \<times> pydict" where
  "extract_text self upd =
     ebind (py_getitem upd ''message'') (\<lambda>msg.
     ebind (py_get msg ''entities'' (VList [])) (\<lambda>entities.
       if \<not> truthy entities then
         ebind (py_get msg ''text'' (VStr [])) (\<lambda>text. Inr (text, []))
       else
         ebind (py_get msg ''text'' (VStr [])) (\<lambda>text.
         ebind (py_iter entities) (\<lambda>ents.
         ebind (py_sorted_by ''offset'' ents) (\<lambda>sorted_ents.
         ebind (scrub (username self) text sorted_ents ([], 0, [])) (\<lambda>(final_text, last_index, meta).
         ebind (str_slice text last_index None) (\<lambda>rest.
           Inr (VStr (final_text @ rest), meta))))))))"

definition possible_types :: "string list" where
  "possible_types = [''audio'', ''voice'', ''photo'', ''video'', ''document'', ''sticker'',
     ''animation'', ''video_note'', ''contact'', ''location'', ''venue'', ''poll'', ''invoice'']"

text \<open>The loop of \<^verbatim>\<open>_make_update\<close> over the possible attachment fields of the message.\<close>

fun collect_attachments :: "pyval \<Rightarrow> string list \<Rightarrow> attachment list \<Rightarrow> exn + attachment list" where
  "collect_attachments msg [] attachments = Inr attachments"
| "collect_attachments msg (key # keys) attachments =
     ebind (py_in key msg) (\<lambda>present.
       if present then
         ebind (py_getitem msg key) (\<lambda>d.
         ebind (make_attachment d key) (\<lambda>a.
           collect_attachments msg keys (attachments @ [a])))
       else collect_attachments msg keys attachments)"

definition make_update :: "telegram \<Rightarrow> pyval \<Rightarrow> exn + update" where
  "make_update self raw_update =
     ebind (py_in ''message'' raw_update) (\<lambda>has_message.
       if \<not> has_message then Inr (Update raw_update UPD [])
       else
         ebind (py_getitem raw_update ''message'') (\<lambda>msg.
         ebind (collect_attachments msg possible_types []) (\<lambda>attachments.
         ebind (py_getitem msg ''chat'') (\<lambda>chat.
         ebind (py_getitem chat ''type'') (\<lambda>chat_type.
         ebind (if chat_type = VStr ''private''
                then ebind (py_get msg ''text'' (VStr [])) (\<lambda>text. Inr (SOLO, text, []))
                else ebind (extract_text self raw_update) (\<lambda>(text, meta). Inr (MULTI, text, meta)))
           (\<lambda>(receiver_type, text, meta).
         ebind (py_getitem msg ''from'') (\<lambda>sender.
         ebind (py_getitem sender ''id'') (\<lambda>sender_id.
         ebind (py_getitem chat ''id'') (\<lambda>receiver_id.
         ebind (py_getitem msg ''date'') (\<lambda>date.
           Inr (Message raw_update MSG text attachments sender_id receiver_id
                  receiver_type date meta)))))))))))"

subsection \<open>Effects and the environment\<close>

text \<open>
  What the adapter does to the outside world, in the order it does it: an HTTP request
  (method name and the form data sent), a pause (\<^verbatim>\<open>asyncio.sleep\<close>, in seconds), the
  delivery of an update to the sink, a log record, and taking and giving back the pacing
  lock. The debug record that \<^verbatim>\<open>_request\<close> writes after a successful call is not traced.
\<close>

datatype effect =
    Request string pydict
  | Sleep rat
  | Submit update
  | LogException string
  | LogInfo string pyval
  | Acquire
  | Release

type_synonym trace = "effect list"

text \<open>
  The environment answers from the history so far. \<open>post\<close> is the provider: the decoded
  body of the response, or the exception that the transport or the decoder raises (or a
  cancellation delivered while the request is awaited). \<open>sink\<close> is the caller's
  \<^verbatim>\<open>submit_update\<close>: \<open>None\<close> when it returns, the exception when it raises.
\<close>

record env =
  post :: "trace \<Rightarrow> string \<Rightarrow> pydict \<Rightarrow> exn + pyval"
  sink :: "trace \<Rightarrow> update \<Rightarrow> exn option"

type_synonym 'a outcome = "(exn + 'a) \<times> telegram \<times> trace"

subsection \<open>Requests\<close>

definition request :: "env \<Rightarrow> telegram \<Rightarrow> trace \<Rightarrow> string \<Rightarrow> pydict \<Rightarrow> pyval outcome" where
  "request e self tr method kwargs =
     (let self1 = (if session self = None then self\<lparr>session := Some Created\<rparr> else self);
          data = filter (\<lambda>kv. snd kv \<noteq> VNone) kwargs;
          tr1 = tr @ [Request method data]
      in case post e tr method data of
           Inl x \<Rightarrow> (Inl x, self1, tr1)
         | Inr body \<Rightarrow>
             (case py_get body ''ok'' VNone of
                Inl x \<Rightarrow> (Inl x, self1, tr1)
              | Inr ok \<Rightarrow>
                  if \<not> truthy ok then (Inl (RequestException method kwargs body), self1, tr1)
                  else (py_getitem body ''result'', self1, tr1)))"

subsection \<open>Polling\<close>

text \<open>
  The loop of \<^verbatim>\<open>acquire_updates\<close> over the response: normalise the item, hand it to the
  sink, then set the cursor one past the item's \<^verbatim>\<open>update_id\<close>. An exception anywhere ends
  the loop and leaves the method.
\<close>

definition next_offset :: "pyval \<Rightarrow> exn + int" where
  "next_offset upd = ebind (py_getitem upd ''update_id'') (\<lambda>uid. py_add uid (VInt 1))"

fun deliver :: "env \<Rightarrow> telegram \<Rightarrow> trace \<Rightarrow> pyval list \<Rightarrow> unit outcome" where
  "deliver e self tr [] = (Inr (), self, tr)"
| "deliver e self tr (upd # upds) =
     (case make_update self upd of
        Inl x \<Rightarrow> (Inl x, self, tr)
      | Inr ev \<Rightarrow>
          (case sink e tr ev of
             Some x \<Rightarrow> (Inl x, self, tr @ [Submit ev])
           | None \<Rightarrow>
               (case next_offset upd of
                  Inl x \<Rightarrow> (Inl x, self, tr @ [Submit ev])
                | Inr n \<Rightarrow> deliver e (self\<lparr>offset := n\<rparr>) (tr @ [Submit ev]) upds)))"

text \<open>
  The classes that \<^verbatim>\<open>except (json.JSONDecodeError, aiohttp.ClientError)\<close> catches.
\<close>

fun is_decode_or_transport :: "exn \<Rightarrow> bool" where
  "is_decode_or_transport JSONDecodeError = True"
| "is_decode_or_transport ClientError = True"
| "is_decode_or_transport _ = False"

definition acquire_updates :: "env \<Rightarrow> telegram \<Rightarrow> trace \<Rightarrow> unit outcome" where
  "acquire_updates e self tr =
     (case request e self tr ''getUpdates'' [(''timeout'', VInt 25), (''offset'', VInt (offset self))] of
        (Inl x, self1, tr1) \<Rightarrow>
          if is_decode_or_transport x then (Inr (), self1, tr1)
          else if x = CancelledError then (Inl CancelledError, self1, tr1)
          else (Inr (), self1,
                tr1 @ [LogException ''Exceptions while gettings updates (Telegram)'', Sleep 1])
      | (Inr response, self1, tr1) \<Rightarrow>
          (case py_iter response of
             Inl x \<Rightarrow> (Inl x, self1, tr1)
           | Inr upds \<Rightarrow> deliver e self1 tr1 upds))"

subsection \<open>Sending\<close>

text \<open>
  What a caller may pass as \<^verbatim>\<open>attachments\<close>: an int, a string, an \<^verbatim>\<open>Attachment\<close>, a sequence of
  such things, or \<^verbatim>\<open>None\<close>.
\<close>

datatype arg =
    AInt int
  | AStr string
  | AAttachment attachment
  | ASeq "arg list"
  | ANone

text \<open>
  A dict display \<^verbatim>\<open>{k1: v1, ..., **kwargs}\<close>: a later key overwrites an earlier one in place.
\<close>

definition py_dict :: "pydict \<Rightarrow> pydict" where
  "py_dict kvs = foldl (\<lambda>d kv. AList.update (fst kv) (snd kv) d) [] kvs"

text \<open>
  Modelled from the spec: \<^verbatim>\<open>pick_by\<close> of \<^verbatim>\<open>kutana/helpers.py\<close> is not among the sources. Section
  4.3: every call site filters out the parameters whose value is absent.
\<close>

definition pick_by :: "pydict \<Rightarrow> pydict" where
  "pick_by d = filter (\<lambda>kv. snd kv \<noteq> VNone) d"

text \<open>\<^verbatim>\<open>str.capitalize\<close> on ASCII letters.\<close>

definition upper_char :: "char \<Rightarrow> char" where
  "upper_char c = (let n = of_char c :: nat in if 97 \<le> n \<and> n \<le> 122 then char_of (n - 32) else c)"

definition lower_char :: "char \<Rightarrow> char" where
  "lower_char c = (let n = of_char c :: nat in if 65 \<le> n \<and> n \<le> 90 then char_of (n + 32) else c)"

fun capitalize :: "string \<Rightarrow> string" where
  "capitalize [] = []"
| "capitalize (c # cs) = upper_char c # map lower_char cs"

text \<open>\<^verbatim>\<open>ATTACHMENT_TYPE_ALIASES.get(t, t)\<close> and \<^verbatim>\<open>f"send{attachment_type.capitalize()}"\<close>.\<close>

definition attachment_type :: "string \<Rightarrow> string" where
  "attachment_type t = (case map_of ATTACHMENT_TYPE_ALIASES t of None \<Rightarrow> t | Some c \<Rightarrow> c)"

definition send_method :: "string \<Rightarrow> string" where
  "send_method t = ''send'' @ capitalize (attachment_type t)"

text \<open>The request that sends one attachment: by reference when uploaded, else by content.\<close>

definition attachment_params :: "string \<Rightarrow> attachment \<Rightarrow> exn + pydict" where
  "attachment_params chat_id a =
     (if uploaded a then
        ebind (py_str (att_id a)) (\<lambda>ids.
          Inr (pick_by (py_dict [(''chat_id'', VStr chat_id),
                                 (attachment_type (att_type a), VStr ids),
                                 (''caption'', title a)])))
      else if attachment_type (att_type a) \<notin> set SUPPORTED_ATTACHMENT_TYPES
        then Inl (CantUploadAttachment (attachment_type (att_type a)))
      else Inr (pick_by (py_dict [(''chat_id'', VStr chat_id),
                                  (attachment_type (att_type a), att_file a),
                                  (''caption'', title a)])))"

text \<open>The loop of \<^verbatim>\<open>execute_send\<close> over the attachments; \<open>result\<close> collects the responses.\<close>

fun send_attachments ::
  "env \<Rightarrow> telegram \<Rightarrow> trace \<Rightarrow> string \<Rightarrow> arg list \<Rightarrow> pyval list \<Rightarrow> pyval list outcome" where
  "send_attachments e self tr chat_id [] result = (Inr result, self, tr)"
| "send_attachments e self tr chat_id (x # xs) result =
     (case x of
        AAttachment a \<Rightarrow>
          (case attachment_params chat_id a of
             Inl err \<Rightarrow> (Inl err, self, tr)
           | Inr params \<Rightarrow>
               (case request e self tr (send_method (att_type a)) params of
                  (Inl err, self1, tr1) \<Rightarrow> (Inl err, self1, tr1)
                | (Inr r, self1, tr1) \<Rightarrow>
                    send_attachments e self1 (tr1 @ [Sleep (api_messages_pause self1)]) chat_id xs
                      (result @ [r])))
      | _ \<Rightarrow> (Inl UnexpectedAttachment, self, tr))"

text \<open>\<^verbatim>\<open>if isinstance(attachments, (int, str, Attachment)): attachments = (attachments,)\<close>.\<close>

fun as_sequence :: "arg \<Rightarrow> exn + arg list" where
  "as_sequence (AInt n) = Inr [AInt n]"
| "as_sequence (AStr s) = Inr [AStr s]"
| "as_sequence (AAttachment a) = Inr [AAttachment a]"
| "as_sequence (ASeq xs) = Inr xs"
| "as_sequence ANone = Inl TypeError"

text \<open>The text part: \<^verbatim>\<open>if message:\<close> one \<^verbatim>\<open>sendMessage\<close> and a pause.\<close>

definition send_text ::
  "env \<Rightarrow> telegram \<Rightarrow> trace \<Rightarrow> string \<Rightarrow> string \<Rightarrow> pydict \<Rightarrow> pyval list outcome" where
  "send_text e self tr chat_id message kwargs =
     (if message \<noteq> [] then
        (case request e self tr ''sendMessage''
                (py_dict ([(''chat_id'', VStr chat_id), (''text'', VStr message)] @ kwargs)) of
           (Inl err, self1, tr1) \<Rightarrow> (Inl err, self1, tr1)
         | (Inr r, self1, tr1) \<Rightarrow> (Inr [r], self1, tr1 @ [Sleep (api_messages_pause self1)]))
      else (Inr [], self, tr))"

text \<open>The body of the \<^verbatim>\<open>async with\<close> block.\<close>

definition send_body ::
  "env \<Rightarrow> telegram \<Rightarrow> trace \<Rightarrow> string \<Rightarrow> string \<Rightarrow> arg \<Rightarrow> pydict \<Rightarrow> pyval list outcome" where
  "send_body e self tr chat_id message attachments kwargs =
     (case send_text e self tr chat_id message kwargs of
        (Inl err, self1, tr1) \<Rightarrow> (Inl err, self1, tr1)
      | (Inr result, self1, tr1) \<Rightarrow>
          (case as_sequence attachments of
             Inl err \<Rightarrow> (Inl err, self1, tr1)
           | Inr xs \<Rightarrow> send_attachments e self1 tr1 chat_id xs result))"

text \<open>
  \<^verbatim>\<open>execute_send\<close>. Entering \<^verbatim>\<open>async with self.api_messages_lock\<close> raises when the lock is
  \<^verbatim>\<open>None\<close>; otherwise the lock is taken, and given back however the body ends. A single
  invocation is modelled: the lock is free when it is asked for.
\<close>

definition execute_send ::
  "env \<Rightarrow> telegram \<Rightarrow> trace \<Rightarrow> pyval \<Rightarrow> string \<Rightarrow> arg \<Rightarrow> pydict \<Rightarrow> pyval list outcome" where
  "execute_send e self tr target_id message attachments kwargs =
     (case py_str target_id of
        Inl err \<Rightarrow> (Inl err, self, tr)
      | Inr chat_id \<Rightarrow>
          (case api_messages_lock self of
             None \<Rightarrow> (Inl NotAContextManager, self, tr)
           | Some l \<Rightarrow>
               (case send_body e self (tr @ [Acquire]) chat_id message attachments kwargs of
                  (r, self1, tr1) \<Rightarrow> (r, self1, tr1 @ [Release]))))"

text \<open>
  The request effects that a send leaves in the trace: \<^verbatim>\<open>_request\<close> records the method and
  the parameters without the absent ones.
\<close>

definition text_call :: "string \<Rightarrow> string \<Rightarrow> pydict \<Rightarrow> effect" where
  "text_call chat_id message kwargs =
     Request ''sendMessage''
       (filter (\<lambda>kv. snd kv \<noteq> VNone)
          (py_dict ([(''chat_id'', VStr chat_id), (''text'', VStr message)] @ kwargs)))"

definition attachment_call :: "string \<Rightarrow> attachment \<Rightarrow> effect" where
  "attachment_call chat_id a =
     Request (send_method (att_type a))
       (case attachment_params chat_id a of
          Inl err \<Rightarrow> []
        | Inr params \<Rightarrow> filter (\<lambda>kv. snd kv \<noteq> VNone) params)"

subsection \<open>Start-up\<close>

text \<open>\<^verbatim>\<open>str.strip\<close> on ASCII white space.\<close>

definition is_space :: "char \<Rightarrow> bool" where
  "is_space c = (let n = of_char c :: nat in n = 32 \<or> (9 \<le> n \<and> n \<le> 13) \<or> (28 \<le> n \<and> n \<le> 31))"

definition strip :: "string \<Rightarrow> string" where
  "strip s = rev (dropWhile is_space (rev (dropWhile is_space s)))"

definition display_name :: "pyval \<Rightarrow> exn + string" where
  "display_name me =
     ebind (py_get me ''first_name'' (VStr [])) (\<lambda>first_name.
     ebind (py_concat first_name (VStr '' '')) (\<lambda>left.
     ebind (py_get me ''last_name'' (VStr [])) (\<lambda>last_name.
     ebind (py_concat left last_name) (\<lambda>name.
       Inr (if strip (the_VStr name) = [] then ''(unknown)'' else strip (the_VStr name))))))"

definition on_start :: "env \<Rightarrow> telegram \<Rightarrow> trace \<Rightarrow> unit outcome" where
  "on_start e self tr =
     (case request e self tr ''getMe'' [] of
        (Inl err, self1, tr1) \<Rightarrow> (Inl err, self1, tr1)
      | (Inr me, self1, tr1) \<Rightarrow>
          (case ebind (display_name me) (\<lambda>name.
                ebind (py_getitem me ''username'') (\<lambda>uname. Inr (name, uname))) of
             Inl err \<Rightarrow> (Inl err, self1, tr1)
           | Inr (name, uname) \<Rightarrow>
               (Inr (), self1\<lparr>username := uname, api_messages_lock := Some Lock\<rparr>,
                tr1 @ [LogInfo name uname])))"

subsection \<open>Concrete adapters, environments and inputs\<close>

text \<open>The adapter as \<^verbatim>\<open>Telegram("token")\<close> leaves it, and after a successful \<^verbatim>\<open>on_start\<close>.\<close>

definition fresh_adapter :: telegram where
  "fresh_adapter =
     \<lparr>offset = 0, session = None, is_session_local = True, username = VNone,
      api_token = ''token'', api_messages_pause = 1 / 29, api_messages_lock = None\<rparr>"

definition started_adapter :: telegram where
  "started_adapter = fresh_adapter\<lparr>username := VStr ''mybot'', api_messages_lock := Some Lock\<rparr>"

text \<open>
  A provider that answers every call with \<^verbatim>\<open>{"ok": true, "result": r}\<close>, and a sink that
  raises a cancellation when the history has \<open>k\<close> entries and returns otherwise.
\<close>

definition answering_env :: "pyval \<Rightarrow> nat \<Rightarrow> env" where
  "answering_env r k =
     \<lparr>post = (\<lambda>tr method data. Inr (VDict [(''ok'', VBool True), (''result'', r)])),
      sink = (\<lambda>tr ev. if length tr = k then Some CancelledError else None)\<rparr>"

text \<open>A provider whose every call raises \<open>x\<close>.\<close>

definition failing_env :: "exn \<Rightarrow> env" where
  "failing_env x = \<lparr>post = (\<lambda>tr method data. Inl x), sink = (\<lambda>tr ev. None)\<rparr>"

text \<open>A raw update that carries only its id.\<close>

definition bare_update :: "int \<Rightarrow> pyval" where
  "bare_update n = VDict [(''update_id'', VInt n)]"

text \<open>
  A raw message update whose text starts with a command entity of \<open>n\<close> characters, in a
  chat of the given type.
\<close>

definition command_update :: "string \<Rightarrow> string \<Rightarrow> int \<Rightarrow> pyval" where
  "command_update chat_type text n =
     VDict [(''update_id'', VInt 10),
            (''message'', VDict
               [(''text'', VStr text),
                (''entities'', VList [VDict [(''type'', VStr ''bot_command''),
                                             (''offset'', VInt 0), (''length'', VInt n)]]),
                (''chat'', VDict [(''id'', VInt 7), (''type'', VStr chat_type)]),
                (''from'', VDict [(''id'', VInt 5)]),
                (''date'', VInt 1)])]"

text \<open>
  A polling response with the ids 10, 11, 12 (a group message and two updates without a
  message), and the events that a started adapter makes of them.
\<close>

definition polled_updates :: "pyval list" where
  "polled_updates = [command_update ''group'' ''/start@mybot hello'' 12, bare_update 11, bare_update 12]"

definition polled_events :: "update list" where
  "polled_events =
     [Message (command_update ''group'' ''/start@mybot hello'' 12) MSG (VStr ''/start hello'') []
        (VInt 5) (VInt 7) MULTI (VInt 1) [(''bot_mentioned'', VBool True)],
      Update (bare_update 11) UPD [],
      Update (bare_update 12) UPD []]"

definition get_updates_call :: "int \<Rightarrow> effect" where
  "get_updates_call n = Request ''getUpdates'' [(''timeout'', VInt 25), (''offset'', VInt n)]"

text \<open>A new attachment (local content, not uploaded).\<close>

definition new_attachment :: "string \<Rightarrow> attachment" where
  "new_attachment t =
     \<lparr>att_id = VNone, att_type = t, title = VNone, file_name = VStr ''f'', getter = None,
      att_raw = VNone, uploaded = False, att_file = VBytes ''content''\<rparr>"

definition existing_photo :: attachment where
  "existing_photo =
     existing_full (VStr ''AgAD'') ''image'' (VStr ''a cat'') (VStr ''AgAD'') (Some (VStr ''AgAD''))
       VNone"


section \<open>Properties\<close>

subsection \<open>Auxiliary facts\<close>

lemma attachment_type_alias:
  "map_of ATTACHMENT_TYPE_ALIASES a = Some c \<Longrightarrow> attachment_type a = c \<and> attachment_type c = c"
  by (auto simp: ATTACHMENT_TYPE_ALIASES_def attachment_type_def split: if_splits)

lemma init_lock: "init token mps sess = Inr self0 \<Longrightarrow> api_messages_lock self0 = None"
  by (auto simp: init_def split: if_splits)

lemma request_shape:
  "request e self tr method kwargs = (r, self1, tr1) \<Longrightarrow>
     self1 = (if session self = None then self\<lparr>session := Some Created\<rparr> else self)
     \<and> tr1 = tr @ [Request method (filter (\<lambda>kv. snd kv \<noteq> VNone) kwargs)]"
  by (auto simp: request_def Let_def split: sum.splits if_splits)

subsection \<open>Aliases of attachment types\<close>

text \<open>
  C9. For every alias in the alias table, an attachment declared with the alias is sent
  with the same method name, the same parameters and the same effects as one declared
  with the canonical type; \<open>doc\<close> and \<open>document\<close> route to \<open>sendDocument\<close>, \<open>image\<close> and
  \<open>photo\<close> to \<open>sendPhoto\<close>.
\<close>

theorem alias_same_send_method:
  "(\<forall>a c. map_of ATTACHMENT_TYPE_ALIASES a = Some c \<longrightarrow>
      send_method a = send_method c
      \<and> attachment_params chat_id (x\<lparr>att_type := a\<rparr>) = attachment_params chat_id (x\<lparr>att_type := c\<rparr>)
      \<and> send_attachments e self tr chat_id (AAttachment (x\<lparr>att_type := a\<rparr>) # xs) result
          = send_attachments e self tr chat_id (AAttachment (x\<lparr>att_type := c\<rparr>) # xs) result)
   \<and> send_method ''doc'' = ''sendDocument'' \<and> send_method ''document'' = ''sendDocument''
   \<and> send_method ''image'' = ''sendPhoto'' \<and> send_method ''photo'' = ''sendPhoto''"
proof -
  have names: "send_method ''doc'' = ''sendDocument'' \<and> send_method ''document'' = ''sendDocument''
   \<and> send_method ''image'' = ''sendPhoto'' \<and> send_method ''photo'' = ''sendPhoto''"
    by code_simp
  have "send_method a = send_method c
      \<and> attachment_params chat_id (x\<lparr>att_type := a\<rparr>) = attachment_params chat_id (x\<lparr>att_type := c\<rparr>)
      \<and> send_attachments e self tr chat_id (AAttachment (x\<lparr>att_type := a\<rparr>) # xs) result
          = send_attachments e self tr chat_id (AAttachment (x\<lparr>att_type := c\<rparr>) # xs) result"
    if "map_of ATTACHMENT_TYPE_ALIASES a = Some c" for a c
  proof -
    have sm: "send_method a = send_method c"
      using attachment_type_alias [OF that] by (simp add: send_method_def)
    have ap: "attachment_params chat_id (x\<lparr>att_type := a\<rparr>) = attachment_params chat_id (x\<lparr>att_type := c\<rparr>)"
      using attachment_type_alias [OF that] by (simp add: attachment_params_def)
    have "send_attachments e self tr chat_id (AAttachment (x\<lparr>att_type := a\<rparr>) # xs) result
          = send_attachments e self tr chat_id (AAttachment (x\<lparr>att_type := c\<rparr>) # xs) result"
      by (simp add: sm ap split: sum.splits)
    with sm ap show ?thesis by simp
  qed
  with names show ?thesis by blast
qed

theorem alias_same_send_method_witness:
  "map_of ATTACHMENT_TYPE_ALIASES ''doc'' = Some ''document''
   \<and> send_method ''doc'' = send_method ''document''
   \<and> send_attachments (answering_env VNone 0) started_adapter [] ''42''
        [AAttachment ((new_attachment ''x'')\<lparr>att_type := ''doc''\<rparr>)] []
      = send_attachments (answering_env VNone 0) started_adapter [] ''42''
        [AAttachment ((new_attachment ''x'')\<lparr>att_type := ''document''\<rparr>)] []"
proof -
  have h: "map_of ATTACHMENT_TYPE_ALIASES ''doc'' = Some ''document''"
    by (simp add: ATTACHMENT_TYPE_ALIASES_def)
  from alias_same_send_method [where chat_id = "''42''" and x = "new_attachment ''x''"
      and e = "answering_env VNone 0" and self = started_adapter and tr = "[]" and xs = "[]"
      and result = "[]"] h
  show ?thesis by blast
qed

subsection \<open>Sending before start-up\<close>

text \<open>
  C10. The constructor leaves the pacing lock unset. While it is unset, every call of
  \<open>execute_send\<close> fails at once: it raises, and neither the adapter nor the trace changes,
  so no request goes out. A successful \<open>on_start\<close> installs the lock; a failed one leaves
  the lock as it was.
\<close>

theorem execute_send_before_on_start:
  "(init token mps sess = Inr self0 \<longrightarrow> api_messages_lock self0 = None)
   \<and> (api_messages_lock self = None \<longrightarrow>
        (\<exists>err. execute_send e self tr target_id message attachments kwargs = (Inl err, self, tr)))
   \<and> (api_messages_lock self = None \<and> py_str target_id = Inr chat_id \<longrightarrow>
        execute_send e self tr target_id message attachments kwargs = (Inl NotAContextManager, self, tr))
   \<and> (on_start e self tr = (Inr (), self', tr') \<longrightarrow> api_messages_lock self' = Some Lock)
   \<and> (on_start e self tr = (Inl err', self', tr') \<longrightarrow> api_messages_lock self' = api_messages_lock self)"
proof -
  have a: "init token mps sess = Inr self0 \<longrightarrow> api_messages_lock self0 = None"
    by (simp add: init_lock)
  have b: "api_messages_lock self = None \<longrightarrow>
        (\<exists>err. execute_send e self tr target_id message attachments kwargs = (Inl err, self, tr))"
    by (simp add: execute_send_def split: sum.splits)
  have c: "api_messages_lock self = None \<and> py_str target_id = Inr chat_id \<longrightarrow>
        execute_send e self tr target_id message attachments kwargs = (Inl NotAContextManager, self, tr)"
    by (simp add: execute_send_def)
  have d: "on_start e self tr = (Inr (), self', tr') \<longrightarrow> api_messages_lock self' = Some Lock"
    by (auto simp: on_start_def split: prod.splits sum.splits)
  have f: "on_start e self tr = (Inl err', self', tr') \<longrightarrow> api_messages_lock self' = api_messages_lock self"
    by (auto simp: on_start_def split: prod.splits sum.splits dest!: request_shape)
  from a b c d f show ?thesis by blast
qed

theorem execute_send_before_on_start_witness:
  "init ''token'' 29 None = Inr fresh_adapter
   \<and> api_messages_lock fresh_adapter = None
   \<and> execute_send (answering_env VNone 0) fresh_adapter [] (VInt 42) ''hi''
        (ASeq [AAttachment (new_attachment ''photo'')]) []
      = (Inl NotAContextManager, fresh_adapter, [])
   \<and> on_start (answering_env (VDict [(''first_name'', VStr ''My''), (''username'', VStr ''mybot'')]) 0)
        fresh_adapter []
      = (Inr (), started_adapter\<lparr>session := Some Created\<rparr>,
         [Request ''getMe'' [], LogInfo ''My'' (VStr ''mybot'')])
   \<and> api_messages_lock (started_adapter\<lparr>session := Some Created\<rparr>) = Some Lock
   \<and> on_start (failing_env ClientError) fresh_adapter []
      = (Inl ClientError, fresh_adapter\<lparr>session := Some Created\<rparr>, [Request ''getMe'' []])
   \<and> api_messages_lock (fresh_adapter\<lparr>session := Some Created\<rparr>) = api_messages_lock fresh_adapter"
proof -
  have i: "init ''token'' 29 None = Inr fresh_adapter"
    by (simp add: init_def fresh_adapter_def)
  have l: "api_messages_lock fresh_adapter = None"
    by (simp add: fresh_adapter_def)
  have s: "py_str (VInt 42) = Inr ''42''"
    by code_simp
  have ok: "on_start (answering_env (VDict [(''first_name'', VStr ''My''), (''username'', VStr ''mybot'')]) 0)
        fresh_adapter []
      = (Inr (), started_adapter\<lparr>session := Some Created\<rparr>,
         [Request ''getMe'' [], LogInfo ''My'' (VStr ''mybot'')])"
    by code_simp
  have ko: "on_start (failing_env ClientError) fresh_adapter []
      = (Inl ClientError, fresh_adapter\<lparr>session := Some Created\<rparr>, [Request ''getMe'' []])"
    by code_simp
  note t = execute_send_before_on_start
  note c1 = t [THEN conjunct1, THEN mp, OF i]
  note c3 = t [THEN conjunct2, THEN conjunct2, THEN conjunct1, THEN mp, OF conjI [OF l s]]
  note c4 = t [THEN conjunct2, THEN conjunct2, THEN conjunct2, THEN conjunct1, THEN mp, OF ok]
  note c5 = t [THEN conjunct2, THEN conjunct2, THEN conjunct2, THEN conjunct2, THEN mp, OF ko]
  from i c1 c3 c4 c5 ok ko show ?thesis by blast
qed

subsection \<open>Polling\<close>

lemma extract_text_username:
  "username s = username s' \<Longrightarrow> extract_text s u = extract_text s' u"
  by (simp add: extract_text_def cong: if_cong)

lemma make_update_username:
  "username s = username s' \<Longrightarrow> make_update s u = make_update s' u"
  by (simp add: make_update_def extract_text_username [of s s'] cong: if_cong)

lemma make_update_offset: "make_update (self\<lparr>offset := n\<rparr>) u = make_update self u"
  by (rule make_update_username) simp

lemma next_offset_int: "py_getitem u ''update_id'' = Inr (VInt k) \<Longrightarrow> next_offset u = Inr (k + 1)"
  by (simp add: next_offset_def ebind_def py_add_def)

text \<open>
  C8. When the \<open>getUpdates\<close> request of a polling iteration fails, the cursor stays where
  it was and nothing is delivered. A decode or transport error ends the iteration
  silently: the method returns and the request is the only effect. A cancellation leaves
  the method as the exception it is. Any other failure is logged, followed by a pause of
  one second, and the method returns.
\<close>

theorem acquire_updates_error_policy:
  assumes "fst (request e self tr ''getUpdates''
                  [(''timeout'', VInt 25), (''offset'', VInt (offset self))]) = Inl x"
  shows "offset (fst (snd (acquire_updates e self tr))) = offset self
    \<and> (is_decode_or_transport x \<longrightarrow>
          fst (acquire_updates e self tr) = Inr ()
          \<and> snd (snd (acquire_updates e self tr)) = tr @ [get_updates_call (offset self)])
    \<and> (x = CancelledError \<longrightarrow>
          fst (acquire_updates e self tr) = Inl CancelledError
          \<and> snd (snd (acquire_updates e self tr)) = tr @ [get_updates_call (offset self)])
    \<and> (\<not> is_decode_or_transport x \<and> x \<noteq> CancelledError \<longrightarrow>
          fst (acquire_updates e self tr) = Inr ()
          \<and> snd (snd (acquire_updates e self tr))
              = tr @ [get_updates_call (offset self),
                      LogException ''Exceptions while gettings updates (Telegram)'', Sleep 1])"
proof -
  obtain r self1 tr1 where
    req: "request e self tr ''getUpdates''
            [(''timeout'', VInt 25), (''offset'', VInt (offset self))] = (r, self1, tr1)"
    by (cases "request e self tr ''getUpdates''
            [(''timeout'', VInt 25), (''offset'', VInt (offset self))]") auto
  with assms have r: "r = Inl x" by simp
  from request_shape [OF req] have
    s1: "offset self1 = offset self" and
    t1: "tr1 = tr @ [get_updates_call (offset self)]"
    by (auto simp: get_updates_call_def)
  show ?thesis
    using req r s1 t1 by (simp add: acquire_updates_def)
qed

theorem acquire_updates_error_policy_witness:
  "acquire_updates (failing_env ClientError) started_adapter []
     = (Inr (), started_adapter\<lparr>session := Some Created\<rparr>, [get_updates_call 0])
   \<and> acquire_updates (failing_env JSONDecodeError) started_adapter []
     = (Inr (), started_adapter\<lparr>session := Some Created\<rparr>, [get_updates_call 0])
   \<and> acquire_updates (failing_env CancelledError) started_adapter []
     = (Inl CancelledError, started_adapter\<lparr>session := Some Created\<rparr>, [get_updates_call 0])
   \<and> acquire_updates (failing_env (OtherException ''boom'')) started_adapter []
     = (Inr (), started_adapter\<lparr>session := Some Created\<rparr>,
        [get_updates_call 0, LogException ''Exceptions while gettings updates (Telegram)'', Sleep 1])
   \<and> offset (started_adapter\<lparr>session := Some Created\<rparr>) = offset started_adapter"
proof -
  have req: "fst (request (failing_env x) started_adapter [] ''getUpdates''
                  [(''timeout'', VInt 25), (''offset'', VInt (offset started_adapter))]) = Inl x" for x
    by (simp add: request_def failing_env_def Let_def)
  have st: "fst (snd (acquire_updates (failing_env x) started_adapter []))
              = started_adapter\<lparr>session := Some Created\<rparr>" for x
    by (simp add: acquire_updates_def request_def failing_env_def Let_def started_adapter_def
        fresh_adapter_def)
  have o: "offset started_adapter = 0"
    by (simp add: started_adapter_def fresh_adapter_def)
  note t = acquire_updates_error_policy [OF req]
  from t [of ClientError] t [of JSONDecodeError] t [of CancelledError] t [of "OtherException ''boom''"]
    st [of ClientError] st [of JSONDecodeError] st [of CancelledError] st [of "OtherException ''boom''"] o
  show ?thesis
    by (simp add: prod_eq_iff)
qed

text \<open>
  C1. A polling iteration whose response holds three raw updates with the ids 10, 11, 12,
  each of which normalises: when the sink takes all three, exactly the three events are
  delivered, in the order of the response, and the cursor ends at 13. The cursor moves
  item by item, right after the delivery of each: when the sink raises on the first item
  the cursor has not moved, on the second it is 11, on the third it is 12, so a later
  poll starts at the first item that was not delivered.
\<close>

theorem acquire_updates_three_updates:
  assumes req: "request e self tr ''getUpdates''
                  [(''timeout'', VInt 25), (''offset'', VInt (offset self))]
                = (Inr (VList [u1, u2, u3]), self1, tr1)"
    and id1: "py_getitem u1 ''update_id'' = Inr (VInt 10)"
    and id2: "py_getitem u2 ''update_id'' = Inr (VInt 11)"
    and id3: "py_getitem u3 ''update_id'' = Inr (VInt 12)"
    and ev1: "make_update self1 u1 = Inr ev1"
    and ev2: "make_update self1 u2 = Inr ev2"
    and ev3: "make_update self1 u3 = Inr ev3"
  shows "(sink e tr1 ev1 = None \<and> sink e (tr1 @ [Submit ev1]) ev2 = None
            \<and> sink e (tr1 @ [Submit ev1, Submit ev2]) ev3 = None \<longrightarrow>
          acquire_updates e self tr
            = (Inr (), self1\<lparr>offset := 13\<rparr>, tr1 @ [Submit ev1, Submit ev2, Submit ev3]))
    \<and> (sink e tr1 ev1 = Some x \<longrightarrow>
          acquire_updates e self tr = (Inl x, self1, tr1 @ [Submit ev1]))
    \<and> (sink e tr1 ev1 = None \<and> sink e (tr1 @ [Submit ev1]) ev2 = Some x \<longrightarrow>
          acquire_updates e self tr
            = (Inl x, self1\<lparr>offset := 11\<rparr>, tr1 @ [Submit ev1, Submit ev2]))
    \<and> (sink e tr1 ev1 = None \<and> sink e (tr1 @ [Submit ev1]) ev2 = None
            \<and> sink e (tr1 @ [Submit ev1, Submit ev2]) ev3 = Some x \<longrightarrow>
          acquire_updates e self tr
            = (Inl x, self1\<lparr>offset := 12\<rparr>, tr1 @ [Submit ev1, Submit ev2, Submit ev3]))"
proof -
  have a: "acquire_updates e self tr = deliver e self1 tr1 [u1, u2, u3]"
    by (simp add: acquire_updates_def req)
  note n = next_offset_int [OF id1] next_offset_int [OF id2] next_offset_int [OF id3]
  show ?thesis
    unfolding a using n ev1 ev2 ev3 by (simp add: make_update_offset)
qed


theorem acquire_updates_three_updates_witness:
  "acquire_updates (answering_env (VList polled_updates) 0) started_adapter []
     = (Inr (), started_adapter\<lparr>session := Some Created, offset := 13\<rparr>,
        get_updates_call 0 # map Submit polled_events)
   \<and> acquire_updates (answering_env (VList polled_updates) 1) started_adapter []
     = (Inl CancelledError, started_adapter\<lparr>session := Some Created\<rparr>,
        get_updates_call 0 # map Submit (take 1 polled_events))
   \<and> acquire_updates (answering_env (VList polled_updates) 2) started_adapter []
     = (Inl CancelledError, started_adapter\<lparr>session := Some Created, offset := 11\<rparr>,
        get_updates_call 0 # map Submit (take 2 polled_events))
   \<and> acquire_updates (answering_env (VList polled_updates) 3) started_adapter []
     = (Inl CancelledError, started_adapter\<lparr>session := Some Created, offset := 12\<rparr>,
        get_updates_call 0 # map Submit polled_events)"
proof -
  let ?u1 = "command_update ''group'' ''/start@mybot hello'' 12"
  let ?e1 = "Message ?u1 MSG (VStr ''/start hello'') []
        (VInt 5) (VInt 7) MULTI (VInt 1) [(''bot_mentioned'', VBool True)]"
  let ?s = "started_adapter\<lparr>session := Some Created\<rparr>"
  have req: "request (answering_env (VList [?u1, bare_update 11, bare_update 12]) k) started_adapter []
               ''getUpdates'' [(''timeout'', VInt 25), (''offset'', VInt (offset started_adapter))]
             = (Inr (VList [?u1, bare_update 11, bare_update 12]), ?s, [get_updates_call 0])" for k
    by (simp add: request_def answering_env_def Let_def started_adapter_def fresh_adapter_def
        get_updates_call_def)
  have id1: "py_getitem ?u1 ''update_id'' = Inr (VInt 10)"
    by (simp add: command_update_def)
  have id2: "py_getitem (bare_update 11) ''update_id'' = Inr (VInt 11)"
    by (simp add: bare_update_def)
  have id3: "py_getitem (bare_update 12) ''update_id'' = Inr (VInt 12)"
    by (simp add: bare_update_def)
  have ev1: "make_update ?s ?u1 = Inr ?e1"
    by code_simp
  have ev2: "make_update ?s (bare_update 11) = Inr (Update (bare_update 11) UPD [])"
    by (simp add: make_update_def bare_update_def ebind_def)
  have ev3: "make_update ?s (bare_update 12) = Inr (Update (bare_update 12) UPD [])"
    by (simp add: make_update_def bare_update_def ebind_def)
  note t = acquire_updates_three_updates [OF req id1 id2 id3 ev1 ev2 ev3, where x = CancelledError]
  have k0: "acquire_updates (answering_env (VList [?u1, bare_update 11, bare_update 12]) 0) started_adapter []
     = (Inr (), ?s\<lparr>offset := 13\<rparr>,
        [get_updates_call 0, Submit ?e1, Submit (Update (bare_update 11) UPD []),
         Submit (Update (bare_update 12) UPD [])])"
    using t [of 0] by (simp add: answering_env_def)
  have k1: "acquire_updates (answering_env (VList [?u1, bare_update 11, bare_update 12]) 1) started_adapter []
     = (Inl CancelledError, ?s, [get_updates_call 0, Submit ?e1])"
    using t [of 1] by (simp add: answering_env_def)
  have k2: "acquire_updates (answering_env (VList [?u1, bare_update 11, bare_update 12]) 2) started_adapter []
     = (Inl CancelledError, ?s\<lparr>offset := 11\<rparr>,
        [get_updates_call 0, Submit ?e1, Submit (Update (bare_update 11) UPD [])])"
    using t [of 2] by (simp add: answering_env_def)
  have k3: "acquire_updates (answering_env (VList [?u1, bare_update 11, bare_update 12]) 3) started_adapter []
     = (Inl CancelledError, ?s\<lparr>offset := 12\<rparr>,
        [get_updates_call 0, Submit ?e1, Submit (Update (bare_update 11) UPD []),
         Submit (Update (bare_update 12) UPD [])])"
    using t [of 3] by (simp add: answering_env_def)
  show ?thesis
    unfolding polled_updates_def polled_events_def using k0 k1 k2 k3 by simp
qed

subsection \<open>Sending\<close>

lemma send_attachments_append:
  "send_attachments e s t chat_id (xs @ ys) res =
     (case send_attachments e s t chat_id xs res of
        (Inl err, s', t') \<Rightarrow> (Inl err, s', t')
      | (Inr r, s', t') \<Rightarrow> send_attachments e s' t' chat_id ys r)"
  by (induction xs arbitrary: s t res) (auto split: arg.splits sum.splits prod.splits)

lemma send_attachments_unsupported:
  assumes "\<not> uploaded a" "attachment_type (att_type a) \<notin> set SUPPORTED_ATTACHMENT_TYPES"
  shows "send_attachments e s t chat_id (AAttachment a # later) res
           = (Inl (CantUploadAttachment (attachment_type (att_type a))), s, t)"
  using assms by (simp add: attachment_params_def)

lemma request_ok_shape:
  assumes "fst (request e s t m ps) = Inr r"
  shows "request e s t m ps
           = (Inr r, if session s = None then s\<lparr>session := Some Created\<rparr> else s,
              t @ [Request m (filter (\<lambda>kv. snd kv \<noteq> VNone) ps)])"
proof -
  obtain r' s1 t1 where eq: "request e s t m ps = (r', s1, t1)"
    by (cases "request e s t m ps") auto
  with assms request_shape [OF eq] show ?thesis by simp
qed

lemma send_attachments_all:
  assumes ok: "\<And>s t m ps. \<exists>r. fst (request e s t m ps) = Inr r"
    and sendable: "\<forall>a \<in> set as. \<exists>ps. attachment_params chat_id a = Inr ps"
  shows "\<exists>rs s'. send_attachments e s t chat_id (map AAttachment as) res
            = (Inr (res @ rs), s',
               t @ concat (map (\<lambda>a. [attachment_call chat_id a, Sleep (api_messages_pause s)]) as))
          \<and> length rs = length as"
  using sendable
proof (induction as arbitrary: s t res)
  case Nil
  then show ?case by simp
next
  case (Cons a as)
  from Cons.prems obtain ps where ps: "attachment_params chat_id a = Inr ps" by auto
  from ok obtain r where "fst (request e s t (send_method (att_type a)) ps) = Inr r" by blast
  note rq = request_ok_shape [OF this]
  let ?s1 = "if session s = None then s\<lparr>session := Some Created\<rparr> else s"
  let ?t1 = "t @ [attachment_call chat_id a]"
  have pause: "api_messages_pause ?s1 = api_messages_pause s" by simp
  from Cons.prems have "\<forall>a \<in> set as. \<exists>ps. attachment_params chat_id a = Inr ps" by simp
  from Cons.IH [OF this, of ?s1 "?t1 @ [Sleep (api_messages_pause s)]" "res @ [r]"]
  obtain rs s' where
    rest: "send_attachments e ?s1 (?t1 @ [Sleep (api_messages_pause s)]) chat_id (map AAttachment as)
             (res @ [r])
           = (Inr ((res @ [r]) @ rs), s',
              (?t1 @ [Sleep (api_messages_pause s)])
                @ concat (map (\<lambda>a. [attachment_call chat_id a, Sleep (api_messages_pause ?s1)]) as))"
    and len: "length rs = length as"
    by blast
  have "send_attachments e s t chat_id (map AAttachment (a # as)) res
          = (Inr (res @ (r # rs)), s',
             t @ concat (map (\<lambda>a. [attachment_call chat_id a, Sleep (api_messages_pause s)]) (a # as)))"
    using ps rq rest pause by (simp add: attachment_call_def)
  with len show ?case by (intro exI [of _ "r # rs"] exI [of _ s']) simp
qed

text \<open>
  C3 (as the code has it). When \<open>execute_send\<close> comes to a new attachment whose canonical
  type, after alias resolution, cannot be uploaded, it raises the \<open>ValueError\<close> that says so
  and makes no request for that attachment nor for any after it: adapter and trace end
  as in a send of the attachments before it alone, whose requests (the text, the earlier
  attachments) have gone out. With no text and the attachment first, no request goes out
  at all.
\<close>

theorem unsupported_upload_makes_no_call:
  assumes "\<not> uploaded a"
    and "attachment_type (att_type a) \<notin> set SUPPORTED_ATTACHMENT_TYPES"
  shows "execute_send e self tr target_id message (ASeq (earlier @ AAttachment a # later)) kwargs
           = (case execute_send e self tr target_id message (ASeq earlier) kwargs of
                (Inl err, s', t') \<Rightarrow> (Inl err, s', t')
              | (Inr r, s', t') \<Rightarrow>
                  (Inl (CantUploadAttachment (attachment_type (att_type a))), s', t'))
    \<and> (api_messages_lock self = Some l \<and> py_str target_id = Inr chat_id \<longrightarrow>
          execute_send e self tr target_id [] (ASeq (AAttachment a # later)) kwargs
            = (Inl (CantUploadAttachment (attachment_type (att_type a))), self,
               tr @ [Acquire, Release]))"
proof -
  note u = send_attachments_unsupported [OF assms]
  have one: "execute_send e self tr target_id message (ASeq (earlier @ AAttachment a # later)) kwargs
           = (case execute_send e self tr target_id message (ASeq earlier) kwargs of
                (Inl err, s', t') \<Rightarrow> (Inl err, s', t')
              | (Inr r, s', t') \<Rightarrow>
                  (Inl (CantUploadAttachment (attachment_type (att_type a))), s', t'))"
    by (simp add: execute_send_def send_body_def send_attachments_append u
        del: send_attachments.simps split: sum.splits option.splits prod.splits)
  have two: "api_messages_lock self = Some l \<and> py_str target_id = Inr chat_id \<longrightarrow>
          execute_send e self tr target_id [] (ASeq (AAttachment a # later)) kwargs
            = (Inl (CantUploadAttachment (attachment_type (att_type a))), self,
               tr @ [Acquire, Release])"
    by (simp add: execute_send_def send_body_def send_text_def u del: send_attachments.simps)
  from one two show ?thesis by blast
qed

theorem unsupported_upload_makes_no_call_witness:
  "\<not> uploaded (new_attachment ''location'')
   \<and> attachment_type (att_type (new_attachment ''location'')) \<notin> set SUPPORTED_ATTACHMENT_TYPES
   \<and> execute_send (answering_env VNone 0) started_adapter [] (VInt 42) ''hi''
        (ASeq [AAttachment existing_photo, AAttachment (new_attachment ''location''),
               AAttachment (new_attachment ''photo'')]) []
      = (Inl (CantUploadAttachment ''location''), started_adapter\<lparr>session := Some Created\<rparr>,
         [Acquire, Request ''sendMessage'' [(''chat_id'', VStr ''42''), (''text'', VStr ''hi'')],
          Sleep (1 / 29),
          Request ''sendPhoto'' [(''chat_id'', VStr ''42''), (''photo'', VStr ''AgAD''),
                                 (''caption'', VStr ''a cat'')],
          Sleep (1 / 29), Release])
   \<and> execute_send (answering_env VNone 0) started_adapter [] (VInt 42) []
        (ASeq [AAttachment (new_attachment ''location''), AAttachment (new_attachment ''photo'')]) []
      = (Inl (CantUploadAttachment ''location''), started_adapter, [Acquire, Release])"
proof -
  have h1: "\<not> uploaded (new_attachment ''location'')"
    by (simp add: new_attachment_def)
  have ty: "attachment_type (att_type (new_attachment ''location'')) = ''location''"
    by (simp add: new_attachment_def attachment_type_def ATTACHMENT_TYPE_ALIASES_def)
  have h2: "attachment_type (att_type (new_attachment ''location'')) \<notin> set SUPPORTED_ATTACHMENT_TYPES"
    by (simp add: ty SUPPORTED_ATTACHMENT_TYPES_def)
  have before: "execute_send (answering_env VNone 0) started_adapter [] (VInt 42) ''hi''
        (ASeq [AAttachment existing_photo]) []
      = (Inr [VNone, VNone], started_adapter\<lparr>session := Some Created\<rparr>,
         [Acquire, Request ''sendMessage'' [(''chat_id'', VStr ''42''), (''text'', VStr ''hi'')],
          Sleep (1 / 29),
          Request ''sendPhoto'' [(''chat_id'', VStr ''42''), (''photo'', VStr ''AgAD''),
                                 (''caption'', VStr ''a cat'')],
          Sleep (1 / 29), Release])"
    by code_simp
  have lk: "api_messages_lock started_adapter = Some Lock"
    by (simp add: started_adapter_def)
  have chat: "py_str (VInt 42) = Inr ''42''"
    by code_simp
  note t = unsupported_upload_makes_no_call [OF h1 h2]
  from t [where earlier = "[AAttachment existing_photo]"
          and later = "[AAttachment (new_attachment ''photo'')]"
          and e = "answering_env VNone 0" and self = started_adapter and tr = "[]"
          and target_id = "VInt 42" and message = "''hi''" and kwargs = "[]",
          THEN conjunct1]
    t [where later = "[AAttachment (new_attachment ''photo'')]"
          and e = "answering_env VNone 0" and self = started_adapter and tr = "[]"
          and target_id = "VInt 42" and kwargs = "[]" and l = Lock and chat_id = "''42''",
          THEN conjunct2]
    h1 h2 before lk chat ty
  show ?thesis by simp
qed

text \<open>
  With a text, the \<open>sendMessage\<close> request has gone out by the time the unsupported
  attachment is met: the failing send has made one outbound call.
\<close>

theorem unsupported_upload_after_text_counterexample:
  "execute_send (answering_env VNone 0) started_adapter [] (VInt 42) ''hi''
     (ASeq [AAttachment (new_attachment ''location'')]) []
   = (Inl (CantUploadAttachment ''location''), started_adapter\<lparr>session := Some Created\<rparr>,
      [Acquire, Request ''sendMessage'' [(''chat_id'', VStr ''42''), (''text'', VStr ''hi'')],
       Sleep (1 / 29), Release])"
  by code_simp

text \<open>
  C5 (as the code has it). A scalar \<open>attachments\<close> argument is treated as the one-element
  sequence holding it: the send of a single \<open>Attachment\<close>, of a bare id and of a bare path
  each equal the send of the one-element list. The loop then takes only \<open>Attachment\<close>
  objects: a bare id or path is refused with the \<open>ValueError\<close> for an unexpected
  attachment, after the text, if any, has been sent.
\<close>

theorem scalar_attachments_as_sequence:
  "execute_send e self tr target_id message (AAttachment a) kwargs
     = execute_send e self tr target_id message (ASeq [AAttachment a]) kwargs
   \<and> execute_send e self tr target_id message (AInt n) kwargs
     = execute_send e self tr target_id message (ASeq [AInt n]) kwargs
   \<and> execute_send e self tr target_id message (AStr path) kwargs
     = execute_send e self tr target_id message (ASeq [AStr path]) kwargs
   \<and> execute_send e self tr target_id message (AInt n) kwargs
     = (case execute_send e self tr target_id message (ASeq []) kwargs of
          (Inl err, s', t') \<Rightarrow> (Inl err, s', t')
        | (Inr r, s', t') \<Rightarrow> (Inl UnexpectedAttachment, s', t'))
   \<and> execute_send e self tr target_id message (AStr path) kwargs
     = (case execute_send e self tr target_id message (ASeq []) kwargs of
          (Inl err, s', t') \<Rightarrow> (Inl err, s', t')
        | (Inr r, s', t') \<Rightarrow> (Inl UnexpectedAttachment, s', t'))"
  by (simp add: execute_send_def send_body_def split: sum.splits option.splits prod.splits)

text \<open>
  A bare path and a bare id, sent without text through a started adapter, are refused.
\<close>

theorem bare_path_rejected_counterexample:
  "execute_send (answering_env VNone 0) started_adapter [] (VInt 42) [] (AStr ''photo.png'') []
     = (Inl UnexpectedAttachment, started_adapter, [Acquire, Release])
   \<and> execute_send (answering_env VNone 0) started_adapter [] (VInt 42) [] (AInt 123) []
     = (Inl UnexpectedAttachment, started_adapter, [Acquire, Release])"
  by code_simp

lemma on_start_pause:
  "on_start e0 self0 tr0 = (Inr (), self, tr1) \<Longrightarrow>
     api_messages_pause self = api_messages_pause self0"
  by (auto simp: on_start_def split: prod.splits sum.splits dest!: request_shape)

lemma init_pause:
  "init token mps sess = Inr self0 \<Longrightarrow> api_messages_pause self0 = 1 / of_int mps"
  by (auto simp: init_def split: if_splits)

text \<open>
  C4. A send with a non-empty text and a list of attachments, each of which can be sent,
  through a started adapter and a provider that answers every request: the effects are,
  in this order, taking the lock, the \<open>sendMessage\<close> request, then one request per
  attachment in the order of the list, and giving the lock back; every request is followed
  by a pause of \<open>api_messages_pause\<close>, so two consecutive requests are that pause apart,
  and all of it happens between taking and releasing the lock. There is one response per
  request. When the sending adapter is the one that a successful \<open>on_start\<close> makes of a
  constructed adapter, that pause is \<open>1 / messages_per_second\<close>.
\<close>

theorem execute_send_text_then_attachments:
  assumes ok: "\<And>s t m ps. \<exists>r. fst (request e s t m ps) = Inr r"
    and sendable: "\<forall>a \<in> set as. \<exists>ps. attachment_params chat_id a = Inr ps"
    and lock: "api_messages_lock self = Some l"
    and chat: "py_str target_id = Inr chat_id"
    and nonempty: "message \<noteq> []"
  shows "(\<exists>rs s'. execute_send e self tr target_id message (ASeq (map AAttachment as)) kwargs
            = (Inr rs, s',
               tr @ [Acquire, text_call chat_id message kwargs, Sleep (api_messages_pause self)]
                  @ concat (map (\<lambda>a. [attachment_call chat_id a, Sleep (api_messages_pause self)]) as)
                  @ [Release])
          \<and> length rs = 1 + length as)
    \<and> (\<forall>token mps sess self0 e0 tr0 tr1.
          init token mps sess = Inr self0 \<and> on_start e0 self0 tr0 = (Inr (), self, tr1) \<longrightarrow>
          api_messages_pause self = 1 / of_int mps)"
proof -
  let ?ps = "py_dict ([(''chat_id'', VStr chat_id), (''text'', VStr message)] @ kwargs)"
  let ?s1 = "if session self = None then self\<lparr>session := Some Created\<rparr> else self"
  from ok obtain r where "fst (request e self (tr @ [Acquire]) ''sendMessage'' ?ps) = Inr r"
    by blast
  note rq = request_ok_shape [OF this]
  have pause: "api_messages_pause ?s1 = api_messages_pause self" by simp
  have st: "send_text e self (tr @ [Acquire]) chat_id message kwargs
              = (Inr [r], ?s1,
                 tr @ [Acquire, text_call chat_id message kwargs, Sleep (api_messages_pause self)])"
    using nonempty rq pause by (simp add: send_text_def text_call_def)
  from send_attachments_all [OF ok sendable,
      of ?s1 "tr @ [Acquire, text_call chat_id message kwargs, Sleep (api_messages_pause self)]" "[r]"]
  obtain rs s' where
    sa: "send_attachments e ?s1
           (tr @ [Acquire, text_call chat_id message kwargs, Sleep (api_messages_pause self)])
           chat_id (map AAttachment as) [r]
         = (Inr ([r] @ rs), s',
            (tr @ [Acquire, text_call chat_id message kwargs, Sleep (api_messages_pause self)])
              @ concat (map (\<lambda>a. [attachment_call chat_id a, Sleep (api_messages_pause ?s1)]) as))"
    and len: "length rs = length as"
    by blast
  have "execute_send e self tr target_id message (ASeq (map AAttachment as)) kwargs
            = (Inr (r # rs), s',
               tr @ [Acquire, text_call chat_id message kwargs, Sleep (api_messages_pause self)]
                  @ concat (map (\<lambda>a. [attachment_call chat_id a, Sleep (api_messages_pause self)]) as)
                  @ [Release])"
    using lock chat st sa pause by (simp add: execute_send_def send_body_def)
  with len have first: "\<exists>rs s'. execute_send e self tr target_id message (ASeq (map AAttachment as)) kwargs
            = (Inr rs, s',
               tr @ [Acquire, text_call chat_id message kwargs, Sleep (api_messages_pause self)]
                  @ concat (map (\<lambda>a. [attachment_call chat_id a, Sleep (api_messages_pause self)]) as)
                  @ [Release])
          \<and> length rs = 1 + length as"
    by (intro exI [of _ "r # rs"] exI [of _ s']) simp
  have second: "\<forall>token mps sess self0 e0 tr0 tr1.
          init token mps sess = Inr self0 \<and> on_start e0 self0 tr0 = (Inr (), self, tr1) \<longrightarrow>
          api_messages_pause self = 1 / of_int mps"
  proof (intro allI impI)
    fix token mps sess self0 e0 tr0 tr1
    assume "init token mps sess = Inr self0 \<and> on_start e0 self0 tr0 = (Inr (), self, tr1)"
    then have i: "init token mps sess = Inr self0"
      and o: "on_start e0 self0 tr0 = (Inr (), self, tr1)"
      by simp_all
    from on_start_pause [OF o] init_pause [OF i]
    show "api_messages_pause self = 1 / of_int mps"
      by simp
  qed
  from first second show ?thesis by blast
qed

theorem execute_send_text_then_attachments_witness:
  "init ''token'' 29 None = Inr fresh_adapter
   \<and> on_start (answering_env (VDict [(''first_name'', VStr ''My''), (''username'', VStr ''mybot'')]) 0)
        fresh_adapter []
      = (Inr (), started_adapter\<lparr>session := Some Created\<rparr>,
         [Request ''getMe'' [], LogInfo ''My'' (VStr ''mybot'')])
   \<and> api_messages_pause (started_adapter\<lparr>session := Some Created\<rparr>) = 1 / 29
   \<and> (\<exists>rs s'. execute_send (answering_env VNone 0) (started_adapter\<lparr>session := Some Created\<rparr>) []
        (VInt 42) ''hi'' (ASeq [AAttachment (new_attachment ''doc''), AAttachment existing_photo]) []
      = (Inr rs, s',
         [Acquire,
          Request ''sendMessage'' [(''chat_id'', VStr ''42''), (''text'', VStr ''hi'')],
          Sleep (1 / 29),
          Request ''sendDocument'' [(''chat_id'', VStr ''42''), (''document'', VBytes ''content'')],
          Sleep (1 / 29),
          Request ''sendPhoto'' [(''chat_id'', VStr ''42''), (''photo'', VStr ''AgAD''),
                                 (''caption'', VStr ''a cat'')],
          Sleep (1 / 29),
          Release])
      \<and> length rs = 3)"
proof -
  let ?s = "started_adapter\<lparr>session := Some Created\<rparr>"
  have ok: "\<exists>r. fst (request (answering_env VNone 0) s t m ps) = Inr r" for s t m ps
    by (simp add: request_def answering_env_def Let_def)
  have p1: "attachment_params ''42'' (new_attachment ''doc'')
              = Inr [(''chat_id'', VStr ''42''), (''document'', VBytes ''content'')]"
    by code_simp
  have p2: "attachment_params ''42'' existing_photo
              = Inr [(''chat_id'', VStr ''42''), (''photo'', VStr ''AgAD''), (''caption'', VStr ''a cat'')]"
    by code_simp
  have sendable: "\<forall>a \<in> set [new_attachment ''doc'', existing_photo].
                    \<exists>ps. attachment_params ''42'' a = Inr ps"
    by (simp add: p1 p2)
  have lk: "api_messages_lock ?s = Some Lock"
    by (simp add: started_adapter_def)
  have chat: "py_str (VInt 42) = Inr ''42''"
    by code_simp
  have nonempty: "''hi'' \<noteq> []"
    by simp
  have tc: "text_call ''42'' ''hi'' []
              = Request ''sendMessage'' [(''chat_id'', VStr ''42''), (''text'', VStr ''hi'')]"
    by code_simp
  have c1: "attachment_call ''42'' (new_attachment ''doc'')
              = Request ''sendDocument'' [(''chat_id'', VStr ''42''), (''document'', VBytes ''content'')]"
    by code_simp
  have c2: "attachment_call ''42'' existing_photo
              = Request ''sendPhoto'' [(''chat_id'', VStr ''42''), (''photo'', VStr ''AgAD''),
                                       (''caption'', VStr ''a cat'')]"
    by code_simp
  have i: "init ''token'' 29 None = Inr fresh_adapter"
    by (simp add: init_def fresh_adapter_def)
  have started: "on_start (answering_env (VDict [(''first_name'', VStr ''My''), (''username'', VStr ''mybot'')]) 0)
        fresh_adapter []
      = (Inr (), ?s, [Request ''getMe'' [], LogInfo ''My'' (VStr ''mybot'')])"
    by code_simp
  note t = execute_send_text_then_attachments [OF ok sendable lk chat nonempty,
      where tr = "[]" and kwargs = "[]"]
  from t [THEN conjunct2] i started have "api_messages_pause ?s = 1 / of_int 29"
    by blast
  then have pause: "api_messages_pause ?s = 1 / 29"
    by simp
  from t [THEN conjunct1] have first:
    "\<exists>rs s'. execute_send (answering_env VNone 0) ?s [] (VInt 42) ''hi''
        (ASeq [AAttachment (new_attachment ''doc''), AAttachment existing_photo]) []
      = (Inr rs, s',
         [Acquire,
          Request ''sendMessage'' [(''chat_id'', VStr ''42''), (''text'', VStr ''hi'')],
          Sleep (1 / 29),
          Request ''sendDocument'' [(''chat_id'', VStr ''42''), (''document'', VBytes ''content'')],
          Sleep (1 / 29),
          Request ''sendPhoto'' [(''chat_id'', VStr ''42''), (''photo'', VStr ''AgAD''),
                                 (''caption'', VStr ''a cat'')],
          Sleep (1 / 29),
          Release])
      \<and> length rs = 3"
    by (simp add: tc c1 c2 pause numeral_3_eq_3)
  from i started pause first show ?thesis by blast
qed

subsection \<open>Normalising\<close>







text \<open>
  C2 (as the code has it). The raw update whose message text is \<open>/start@mybot hello\<close>, with
  a bot-command entity over \<open>/start@mybot\<close>: in a chat that is not private, an adapter
  whose username is \<open>mybot\<close> makes of it a message with the text \<open>/start hello\<close> and the
  metadata \<open>bot_mentioned\<close> true; when the name mentioned is another bot's (the text names
  \<open>otherbot\<close>, or the adapter is \<open>otherbot\<close>) the text is unchanged and the metadata empty.
  In a private chat the text is passed through as it is, whatever it is, and the metadata
  is empty.
\<close>

theorem command_mention_scrubbed_in_group_chats:
  "(chat_type \<noteq> ''private'' \<longrightarrow>
      make_update (self\<lparr>username := VStr ''mybot''\<rparr>) (command_update chat_type ''/start@mybot hello'' 12)
        = Inr (Message (command_update chat_type ''/start@mybot hello'' 12) MSG (VStr ''/start hello'') []
                 (VInt 5) (VInt 7) MULTI (VInt 1) [(''bot_mentioned'', VBool True)])
      \<and> make_update (self\<lparr>username := VStr ''mybot''\<rparr>) (command_update chat_type ''/start@otherbot hello'' 15)
        = Inr (Message (command_update chat_type ''/start@otherbot hello'' 15) MSG
                 (VStr ''/start@otherbot hello'') [] (VInt 5) (VInt 7) MULTI (VInt 1) [])
      \<and> make_update (self\<lparr>username := VStr ''otherbot''\<rparr>) (command_update chat_type ''/start@mybot hello'' 12)
        = Inr (Message (command_update chat_type ''/start@mybot hello'' 12) MSG
                 (VStr ''/start@mybot hello'') [] (VInt 5) (VInt 7) MULTI (VInt 1) []))
   \<and> make_update self (command_update ''private'' txt n)
        = Inr (Message (command_update ''private'' txt n) MSG (VStr txt) []
                 (VInt 5) (VInt 7) SOLO (VInt 1) [])"
  by (simp add: make_update_def command_update_def possible_types_def ebind_def extract_text_def
      py_sorted_by_def py_add_def endswith_def py_slice_def clamp_index_def)

theorem command_mention_scrubbed_in_group_chats_witness:
  "''group'' \<noteq> ''private''
   \<and> make_update started_adapter (command_update ''group'' ''/start@mybot hello'' 12)
        = Inr (Message (command_update ''group'' ''/start@mybot hello'' 12) MSG (VStr ''/start hello'') []
                 (VInt 5) (VInt 7) MULTI (VInt 1) [(''bot_mentioned'', VBool True)])
   \<and> make_update started_adapter (command_update ''group'' ''/start@otherbot hello'' 15)
        = Inr (Message (command_update ''group'' ''/start@otherbot hello'' 15) MSG
                 (VStr ''/start@otherbot hello'') [] (VInt 5) (VInt 7) MULTI (VInt 1) [])"
proof -
  have h: "''group'' \<noteq> ''private''"
    by simp
  have s: "started_adapter\<lparr>username := VStr ''mybot''\<rparr> = started_adapter"
    by (simp add: started_adapter_def)
  from command_mention_scrubbed_in_group_chats [where chat_type = "''group''"
      and self = started_adapter, THEN conjunct1, THEN mp, OF h] h
  show ?thesis
    unfolding s by blast
qed

text \<open>
  The same update in a private chat, normalised by the adapter named \<open>mybot\<close>: the mention
  stays in the text and the metadata is empty.
\<close>

theorem private_chat_not_scrubbed_counterexample:
  "make_update started_adapter (command_update ''private'' ''/start@mybot hello'' 12)
     = Inr (Message (command_update ''private'' ''/start@mybot hello'' 12) MSG
              (VStr ''/start@mybot hello'') [] (VInt 5) (VInt 7) SOLO (VInt 1) [])"
  by code_simp

text \<open>
  C6 (the code departs from it). Before \<open>on_start\<close> the username is \<open>None\<close>, and the suffix
  that \<open>_extract_text\<close> looks for is the text \<open>@None\<close>: the adapter as constructed makes of
  the group message \<open>/start@None\<close> a message with the text \<open>/start\<close> and the metadata
  \<open>bot_mentioned\<close> true. Normalisation is not inert before login.
\<close>

theorem mention_scrubbed_before_login:
  "init ''token'' 29 None = Inr fresh_adapter
   \<and> username fresh_adapter = VNone
   \<and> make_update fresh_adapter (command_update ''group'' ''/start@None'' 11)
       = Inr (Message (command_update ''group'' ''/start@None'' 11) MSG (VStr ''/start'') []
                (VInt 5) (VInt 7) MULTI (VInt 1) [(''bot_mentioned'', VBool True)])"
proof -
  have "init ''token'' 29 None = Inr fresh_adapter"
    by (simp add: init_def fresh_adapter_def)
  moreover have "username fresh_adapter = VNone"
    by (simp add: fresh_adapter_def)
  moreover have "make_update fresh_adapter (command_update ''group'' ''/start@None'' 11)
       = Inr (Message (command_update ''group'' ''/start@None'' 11) MSG (VStr ''/start'') []
                (VInt 5) (VInt 7) MULTI (VInt 1) [(''bot_mentioned'', VBool True)])"
    by code_simp
  ultimately show ?thesis by blast
qed



end
